theory Spec2Isabelle
  imports Main
begin

section \<open>The environment of the writer\<close>

text \<open>
  The response writer of package \<open>webio\<close> decorates an \<open>http.ResponseWriter\<close> that the
  server owns. That handle, the tee sink and the clock are interfaces of the Go standard
  library: the model records what the writer does to them (the calls they receive, in
  order, with their arguments) and takes what they answer from behaviour functions that
  are fields of their records, so every theorem holds for every answer they can give.
  A handle's methods are taken to return (a handle that panics aborts the call there)
  and to leave the header map alone: that map changes only by the \<open>Add\<close> and \<open>Set\<close> calls
  of the code at hand. One writer serves one request and is owned by one task, so calls
  never interleave.

  Byte slices and Go strings are \<open>string\<close> (a list of bytes). Go's \<open>int\<close> and
  \<open>time.Duration\<close> (64 bits) are \<open>int\<close>: the code does no arithmetic on a status code, and
  the only arithmetic on a duration is a division by a constant.
\<close>

datatype error = Error string

text \<open>
  \<open>http.Header\<close> is \<open>map[string][]string\<close>. \<open>Add\<close> and \<open>Set\<close> store under the canonical
  form of the key (\<open>textproto.CanonicalMIMEHeaderKey\<close>, standard library): that function is
  the parameter \<open>ck\<close> of every definition that touches a header.
\<close>

type_synonym Header = "string \<rightharpoonup> string list"

definition Header_Add :: "(string \<Rightarrow> string) \<Rightarrow> string \<Rightarrow> string \<Rightarrow> Header \<Rightarrow> Header" where
  "Header_Add ck key val h =
     h(ck key \<mapsto> (case h (ck key) of None \<Rightarrow> [] | Some vs \<Rightarrow> vs) @ [val])"

definition Header_Set :: "(string \<Rightarrow> string) \<Rightarrow> string \<Rightarrow> string \<Rightarrow> Header \<Rightarrow> Header" where
  "Header_Set ck key val h = h(ck key \<mapsto> [val])"

text \<open>
  What the underlying handle receives. \<open>WriteHeader\<close> transmits the status line and the
  header set as it stands at that moment, so the event keeps that header set.
\<close>

datatype PushOptions = PushOptions string Header

datatype event =
    RecvWriteHeader int Header
  | RecvWrite string
  | RecvFlush
  | RecvHijack
  | RecvReadFrom string
  | RecvPush string "PushOptions option"

text \<open>
  The handle \<open>w\<close>: its live header map, the calls it has received, the optional
  interfaces it implements (\<open>http.Flusher\<close>, \<open>http.Hijacker\<close>, \<open>io.ReaderFrom\<close>,
  \<open>http.Pusher\<close>) and its answers, each a function of the calls received so far and of
  the arguments. A reader is modelled by the bytes it holds; the connection and the
  buffered reader-writer that \<open>Hijack\<close> returns are opaque numbers.
\<close>

record handle =
  header :: Header
  events :: "event list"
  flusher :: bool
  hijacker :: bool
  readerFrom :: bool
  pusher :: bool
  onWrite :: "event list \<Rightarrow> string \<Rightarrow> int \<times> error option"
  onReadFrom :: "event list \<Rightarrow> string \<Rightarrow> int \<times> error option"
  onHijack :: "event list \<Rightarrow> nat \<times> nat \<times> error option"
  onPush :: "event list \<Rightarrow> string \<Rightarrow> PushOptions option \<Rightarrow> error option"

definition recv :: "event \<Rightarrow> handle \<Rightarrow> handle" where
  "recv e h = h\<lparr>events := events h @ [e]\<rparr>"

text \<open>A tee sink (\<open>io.Writer\<close>): the slices passed to its \<open>Write\<close>, and its answers.\<close>

record sink =
  received :: "string list"
  onSinkWrite :: "string list \<Rightarrow> string \<Rightarrow> int \<times> error option"

definition sink_output :: "sink \<Rightarrow> string" where
  "sink_output k = concat (received k)"

section \<open>webio: the writer\<close>

definition defaultResponseTime :: string where
  "defaultResponseTime = ''X-Response-Time''"

text \<open>
  The struct \<open>custom\<close>. The field \<open>w\<close> holds the handle it refers to; \<open>teeWriter\<close> is a
  reference into the store of sinks (\<open>None\<close> is \<open>nil\<close>); \<open>start\<close> is a reading of the
  monotonic clock in nanoseconds.
\<close>

record custom =
  w :: handle
  start :: int
  code :: int
  duration :: int
  wroteHeader :: bool
  headerName :: string
  teeWriter :: "nat option"

text \<open>
  The four types \<open>newWriter\<close> returns a pointer to: \<open>custom\<close> itself, and \<open>flushWriter\<close>,
  \<open>httpWriter\<close> and \<open>http2Writer\<close>, each a struct that embeds one \<open>custom\<close>.
\<close>

datatype variant = Custom | FlushWriter | HttpWriter | Http2Writer

definition newWriter :: "handle \<Rightarrow> int \<Rightarrow> string \<Rightarrow> int \<Rightarrow> variant \<times> custom" where
  "newWriter h protoMajor name now =
     (let fl = flusher h;
          name' = (if name = [] then defaultResponseTime else name);
          tw = \<lparr>w = h, start = now, code = 0, duration = 0, wroteHeader = False,
                headerName = name', teeWriter = None\<rparr>
      in case (if protoMajor = 2
               then (if fl \<and> pusher h then Some Http2Writer else None)
               else (if fl \<and> hijacker h \<and> readerFrom h then Some HttpWriter else None)) of
           Some v \<Rightarrow> (v, tw)
         | None \<Rightarrow> if fl then (FlushWriter, tw) else (Custom, tw))"

text \<open>
  The optional methods each type declares (besides the methods of \<open>custom\<close>, which all
  four have): \<open>Flush\<close> on the three embedding types, \<open>Hijack\<close> and \<open>ReadFrom\<close> on
  \<open>httpWriter\<close>, \<open>Push\<close> on \<open>http2Writer\<close>.
\<close>

datatype capability = CapFlush | CapHijack | CapReadFrom | CapPush

fun exposes :: "variant \<Rightarrow> capability set" where
  "exposes Custom = {}"
| "exposes FlushWriter = {CapFlush}"
| "exposes HttpWriter = {CapFlush, CapHijack, CapReadFrom}"
| "exposes Http2Writer = {CapPush, CapFlush}"

text \<open>
  The selection rule as the specification words it, for comparison with \<open>newWriter\<close>:
  protocol major 2 with flush and push, else protocol major 1 with flush, hijack and
  reader-from, else flush alone, else the base variant.
\<close>

definition select_by_spec :: "handle \<Rightarrow> int \<Rightarrow> variant" where
  "select_by_spec h protoMajor =
     (if protoMajor = 2 \<and> flusher h \<and> pusher h then Http2Writer
      else if protoMajor = 1 \<and> flusher h \<and> hijacker h \<and> readerFrom h then HttpWriter
      else if flusher h then FlushWriter
      else Custom)"

section \<open>webio: the methods of the writer\<close>

text \<open>
  A call either returns or panics. The world a call runs in is the writer's struct, the
  store of sinks a \<open>teeWriter\<close> refers to, and the monotonic clock (nanoseconds).
\<close>

datatype panic = PanicError error | SliceBoundsOutOfRange | InterfaceConversion
  | TruncationOutOfRange

datatype 'a result = Return 'a | Panic panic

record world =
  clock :: int
  sinks :: "nat \<Rightarrow> sink"
  this :: custom

text \<open>
  \<open>time.Since\<close> on monotonic readings (its saturation at the ends of the 64-bit range,
  some 292 years, is left out), \<open>Duration.Milliseconds\<close> (Go's integer division
  truncates toward zero) and \<open>strconv.Itoa\<close> (decimal, a minus sign for a negative
  number).
\<close>

definition time_Since :: "int \<Rightarrow> int \<Rightarrow> int" where
  "time_Since t now = now - t"

definition Milliseconds :: "int \<Rightarrow> int" where
  "Milliseconds d = (if d < 0 then - ((- d) div 1000000) else d div 1000000)"

fun decimal :: "nat \<Rightarrow> string" where
  "decimal n =
     (if n < 10 then [''0123456789'' ! n]
      else decimal (n div 10) @ [''0123456789'' ! (n mod 10)])"

declare decimal.simps [simp del]

definition Itoa :: "int \<Rightarrow> string" where
  "Itoa i = (if i < 0 then CHR ''-'' # decimal (nat (- i)) else decimal (nat i))"

text \<open>The handle's own \<open>WriteHeader\<close> and \<open>Write\<close>, as the recording model has them.\<close>

definition handle_WriteHeader :: "int \<Rightarrow> handle \<Rightarrow> handle" where
  "handle_WriteHeader c h = recv (RecvWriteHeader c (header h)) h"

definition handle_Write :: "string \<Rightarrow> handle \<Rightarrow> (int \<times> error option) \<times> handle" where
  "handle_Write buf h = (onWrite h (events h) buf, recv (RecvWrite buf) h)"

definition WriteHeader :: "(string \<Rightarrow> string) \<Rightarrow> int \<Rightarrow> world \<Rightarrow> world" where
  "WriteHeader ck c s =
     (let t = this s in
      if \<not> wroteHeader t then
        let d = time_Since (start t) (clock s);
            dur = Milliseconds d;
            h = (w t)\<lparr>header := Header_Add ck (headerName t) (Itoa dur @ ''ms'') (header (w t))\<rparr>
        in s\<lparr>this := t\<lparr>wroteHeader := True, duration := d, code := c,
                         w := handle_WriteHeader c h\<rparr>\<rparr>
      else s)"

text \<open>
  \<open>Write\<close>. The slice \<open>buf[:n]\<close> is modelled with the capacity of \<open>buf\<close> equal to its
  length: a count outside \<open>0..len(buf)\<close> is the run-time panic.
\<close>

definition Write :: "(string \<Rightarrow> string) \<Rightarrow> string \<Rightarrow> world \<Rightarrow> (int \<times> error option) result \<times> world" where
  "Write ck buf s0 =
     (let s = (if \<not> wroteHeader (this s0) then WriteHeader ck 200 s0 else s0);
          ((n, err), h) = handle_Write buf (w (this s));
          s1 = s\<lparr>this := (this s)\<lparr>w := h\<rparr>\<rparr>
      in case err of
           Some e \<Rightarrow> (Return (n, err), s1)
         | None \<Rightarrow>
            (case teeWriter (this s1) of
               None \<Rightarrow> (Return (n, err), s1)
             | Some a \<Rightarrow>
                 if n < 0 \<or> int (length buf) < n then (Panic SliceBoundsOutOfRange, s1)
                 else
                   let k = sinks s1 a;
                       p = take (nat n) buf;
                       (m, err') = onSinkWrite k (received k) p
                   in (Return (n, err'),
                       s1\<lparr>sinks := (sinks s1)(a := k\<lparr>received := received k @ [p]\<rparr>)\<rparr>)))"

definition Header :: "world \<Rightarrow> Header" where
  "Header s = header (w (this s))"

definition Duration :: "world \<Rightarrow> int" where
  "Duration s = duration (this s)"

definition Code :: "world \<Rightarrow> int" where
  "Code s = code (this s)"

definition TeeWriter :: "nat option \<Rightarrow> world \<Rightarrow> world" where
  "TeeWriter tee s = s\<lparr>this := (this s)\<lparr>teeWriter := tee\<rparr>\<rparr>"

text \<open>
  The methods of the embedding types. Each asserts the optional interface on the handle
  without the comma-ok form, so a handle that lacks it is a panic.
\<close>

definition flushWriter_Flush :: "world \<Rightarrow> unit result \<times> world" where
  "flushWriter_Flush s =
     (let s1 = s\<lparr>this := (this s)\<lparr>wroteHeader := True\<rparr>\<rparr>; h = w (this s1) in
      if flusher h then (Return (), s1\<lparr>this := (this s1)\<lparr>w := recv RecvFlush h\<rparr>\<rparr>)
      else (Panic InterfaceConversion, s1))"

definition httpWriter_Flush :: "world \<Rightarrow> unit result \<times> world" where
  "httpWriter_Flush s =
     (let s1 = s\<lparr>this := (this s)\<lparr>wroteHeader := True\<rparr>\<rparr>; h = w (this s1) in
      if flusher h then (Return (), s1\<lparr>this := (this s1)\<lparr>w := recv RecvFlush h\<rparr>\<rparr>)
      else (Panic InterfaceConversion, s1))"

definition httpWriter_Hijack :: "world \<Rightarrow> (nat \<times> nat \<times> error option) result \<times> world" where
  "httpWriter_Hijack s =
     (let h = w (this s) in
      if hijacker h
      then (Return (onHijack h (events h)), s\<lparr>this := (this s)\<lparr>w := recv RecvHijack h\<rparr>\<rparr>)
      else (Panic InterfaceConversion, s))"

definition httpWriter_ReadFrom ::
  "(string \<Rightarrow> string) \<Rightarrow> string \<Rightarrow> world \<Rightarrow> (int \<times> error option) result \<times> world" where
  "httpWriter_ReadFrom ck r s =
     (if readerFrom (w (this s)) then
        let s1 = (if \<not> wroteHeader (this s) then WriteHeader ck 200 s else s);
            h = w (this s1)
        in (Return (onReadFrom h (events h) r),
            s1\<lparr>this := (this s1)\<lparr>w := recv (RecvReadFrom r) h\<rparr>\<rparr>)
      else (Panic InterfaceConversion, s))"

definition http2Writer_Push ::
  "string \<Rightarrow> PushOptions option \<Rightarrow> world \<Rightarrow> error option result \<times> world" where
  "http2Writer_Push target opts s =
     (let h = w (this s) in
      if pusher h
      then (Return (onPush h (events h) target opts),
            s\<lparr>this := (this s)\<lparr>w := recv (RecvPush target opts) h\<rparr>\<rparr>)
      else (Panic InterfaceConversion, s))"

definition http2Writer_Flush :: "world \<Rightarrow> unit result \<times> world" where
  "http2Writer_Flush s =
     (let s1 = s\<lparr>this := (this s)\<lparr>wroteHeader := True\<rparr>\<rparr>; h = w (this s1) in
      if flusher h then (Return (), s1\<lparr>this := (this s1)\<lparr>w := recv RecvFlush h\<rparr>\<rparr>)
      else (Panic InterfaceConversion, s1))"

text \<open>
  What a handler can do with the value \<open>newWriter\<close> returned: call a method its type
  has, mutate the live header map that \<open>Header()\<close> returns, or let time pass. A method
  the type does not declare cannot be called (the handler's own interface assertion
  fails), so such a step changes nothing. A run goes on after a panic, as a handler
  that recovers does.
\<close>

datatype op =
    OpWriteHeader int
  | OpWrite string
  | OpTeeWriter "nat option"
  | OpFlush
  | OpHijack
  | OpReadFrom string
  | OpPush string "PushOptions option"
  | OpHeaderAdd string string
  | OpHeaderSet string string
  | OpSleep nat

definition Flush :: "variant \<Rightarrow> world \<Rightarrow> world" where
  "Flush v s =
     (case v of
        Custom \<Rightarrow> s
      | FlushWriter \<Rightarrow> snd (flushWriter_Flush s)
      | HttpWriter \<Rightarrow> snd (httpWriter_Flush s)
      | Http2Writer \<Rightarrow> snd (http2Writer_Flush s))"

definition mutate_header :: "(Header \<Rightarrow> Header) \<Rightarrow> world \<Rightarrow> world" where
  "mutate_header f s = s\<lparr>this := (this s)\<lparr>w := (w (this s))\<lparr>header := f (Header s)\<rparr>\<rparr>\<rparr>"

definition step :: "(string \<Rightarrow> string) \<Rightarrow> variant \<Rightarrow> op \<Rightarrow> world \<Rightarrow> world" where
  "step ck v x s =
     (case x of
        OpWriteHeader c \<Rightarrow> WriteHeader ck c s
      | OpWrite buf \<Rightarrow> snd (Write ck buf s)
      | OpTeeWriter tee \<Rightarrow> TeeWriter tee s
      | OpFlush \<Rightarrow> Flush v s
      | OpHijack \<Rightarrow> (if v = HttpWriter then snd (httpWriter_Hijack s) else s)
      | OpReadFrom r \<Rightarrow> (if v = HttpWriter then snd (httpWriter_ReadFrom ck r s) else s)
      | OpPush target opts \<Rightarrow> (if v = Http2Writer then snd (http2Writer_Push target opts s) else s)
      | OpHeaderAdd key val \<Rightarrow> mutate_header (Header_Add ck key val) s
      | OpHeaderSet key val \<Rightarrow> mutate_header (Header_Set ck key val) s
      | OpSleep d \<Rightarrow> s\<lparr>clock := clock s + int d\<rparr>)"

fun run :: "(string \<Rightarrow> string) \<Rightarrow> variant \<Rightarrow> op list \<Rightarrow> world \<Rightarrow> world" where
  "run ck v [] s = s"
| "run ck v (x # xs) s = run ck v xs (step ck v x s)"

text \<open>The world right after \<open>newWriter\<close>: the clock still reads the start time.\<close>

definition fresh :: "handle \<Rightarrow> int \<Rightarrow> string \<Rightarrow> int \<Rightarrow> (nat \<Rightarrow> sink) \<Rightarrow> world" where
  "fresh h protoMajor name now ks =
     \<lparr>clock = now, sinks = ks, this = snd (newWriter h protoMajor name now)\<rparr>"

text \<open>How often the handle's \<open>WriteHeader\<close> was called, and the bytes passed to its \<open>Write\<close>.\<close>

fun statuses :: "event list \<Rightarrow> int list" where
  "statuses [] = []"
| "statuses (RecvWriteHeader c hs # es) = c # statuses es"
| "statuses (e # es) = statuses es"

fun body :: "event list \<Rightarrow> string" where
  "body [] = []"
| "body (RecvWrite buf # es) = buf @ body es"
| "body (e # es) = body es"

text \<open>A sequence of \<open>Write\<close> calls in which every call writes its whole buffer and returns no error.\<close>

fun all_succeed :: "(string \<Rightarrow> string) \<Rightarrow> string list \<Rightarrow> world \<Rightarrow> bool" where
  "all_succeed ck [] s = True"
| "all_succeed ck (buf # bufs) s =
     (fst (Write ck buf s) = Return (int (length buf), None) \<and>
      all_succeed ck bufs (snd (Write ck buf s)))"

text \<open>
  Concrete collaborators for the evaluations below: a handle with no headers that has
  received nothing, implements the given optional interfaces and accepts every write
  in full; an empty \<open>bytes.Buffer\<close> as a sink; a sink that always fails; and a store
  whose sink 0 is the failing one and whose other sinks are empty buffers.
\<close>

definition recorder :: "bool \<Rightarrow> bool \<Rightarrow> bool \<Rightarrow> bool \<Rightarrow> handle" where
  "recorder fl hj rf ps =
     \<lparr>header = Map.empty, events = [], flusher = fl, hijacker = hj, readerFrom = rf,
      pusher = ps,
      onWrite = (\<lambda>es buf. (int (length buf), None)),
      onReadFrom = (\<lambda>es r. (int (length r), None)),
      onHijack = (\<lambda>es. (0, 0, None)),
      onPush = (\<lambda>es target opts. None)\<rparr>"

definition buffer_sink :: sink where
  "buffer_sink = \<lparr>received = [], onSinkWrite = (\<lambda>rs p. (int (length p), None))\<rparr>"

definition closed_sink :: sink where
  "closed_sink = \<lparr>received = [], onSinkWrite = (\<lambda>rs p. (0, Some (Error ''closed'')))\<rparr>"

definition buffers :: "nat \<Rightarrow> sink" where
  "buffers a = (if a = 0 then closed_sink else buffer_sink)"

section \<open>responses: writing a JSON body\<close>

text \<open>
  \<open>responses.Write\<close> takes any \<open>http.ResponseWriter\<close>. The interface is a record of its
  three methods over the implementation's state; \<open>Header()\<close> returns the live map, so a
  method of \<open>http.Header\<close> called on it is an update of that state.
\<close>

record 'a ResponseWriter =
  rw_Header :: "(Header \<Rightarrow> Header) \<Rightarrow> 'a \<Rightarrow> 'a"
  rw_WriteHeader :: "int \<Rightarrow> 'a \<Rightarrow> 'a"
  rw_Write :: "string \<Rightarrow> 'a \<Rightarrow> (int \<times> error option) result \<times> 'a"

definition responses_Write ::
  "(string \<Rightarrow> string) \<Rightarrow> 'a ResponseWriter \<Rightarrow> int \<Rightarrow> string \<Rightarrow> 'a \<Rightarrow> unit result \<times> 'a" where
  "responses_Write ck rw c data x0 =
     (let x1 = rw_Header rw (Header_Set ck ''Content-Type'' ''application/json; charset=utf-8'') x0;
          x2 = rw_Header rw (Header_Set ck ''X-Content-Type-Options'' ''nosniff'') x1;
          x3 = rw_WriteHeader rw c x2;
          (r, x4) = rw_Write rw data x3
      in case r of
           Panic p \<Rightarrow> (Panic p, x4)
         | Return (n, err) \<Rightarrow>
             (case err of Some e \<Rightarrow> (Panic (PanicError e), x4) | None \<Rightarrow> (Return (), x4)))"

text \<open>The two implementations at hand: a plain handle, and the writer of \<open>webio\<close>.\<close>

definition handle_ResponseWriter :: "handle ResponseWriter" where
  "handle_ResponseWriter =
     \<lparr>rw_Header = (\<lambda>f h. h\<lparr>header := f (header h)\<rparr>),
      rw_WriteHeader = handle_WriteHeader,
      rw_Write = (\<lambda>buf h. (Return (fst (handle_Write buf h)), snd (handle_Write buf h)))\<rparr>"

definition custom_ResponseWriter :: "(string \<Rightarrow> string) \<Rightarrow> world ResponseWriter" where
  "custom_ResponseWriter ck =
     \<lparr>rw_Header = mutate_header, rw_WriteHeader = WriteHeader ck, rw_Write = Write ck\<rparr>"

section \<open>requests: the logged body\<close>





section \<open>Facts about the methods\<close>

lemma WriteHeader_sent: "wroteHeader (this s) \<Longrightarrow> WriteHeader ck c s = s"
  by (simp add: WriteHeader_def Let_def)

lemma WriteHeader_pending:
  "\<not> wroteHeader (this s) \<Longrightarrow>
   WriteHeader ck c s =
     s\<lparr>this := (this s)\<lparr>wroteHeader := True,
                          duration := clock s - start (this s),
                          code := c,
                          w := (w (this s))
                            \<lparr>header := Header_Add ck (headerName (this s))
                                 (Itoa (Milliseconds (clock s - start (this s))) @ ''ms'')
                                 (header (w (this s))),
                             events := events (w (this s)) @
                               [RecvWriteHeader c
                                  (Header_Add ck (headerName (this s))
                                     (Itoa (Milliseconds (clock s - start (this s))) @ ''ms'')
                                     (header (w (this s))))]\<rparr>\<rparr>\<rparr>"
  by (simp add: WriteHeader_def Let_def handle_WriteHeader_def recv_def time_Since_def)

lemma WriteHeader_wrote: "wroteHeader (this (WriteHeader ck c s))"
  by (simp add: WriteHeader_def Let_def)

lemma Write_this:
  "this (snd (Write ck buf s)) =
     (if wroteHeader (this s) then (this s)\<lparr>w := recv (RecvWrite buf) (w (this s))\<rparr>
      else (this (WriteHeader ck 200 s))
             \<lparr>w := recv (RecvWrite buf) (w (this (WriteHeader ck 200 s)))\<rparr>)"
  by (simp add: Write_def handle_Write_def Let_def split: prod.splits option.splits)

lemma Write_clock: "clock (snd (Write ck buf s)) = clock s"
  by (simp add: Write_def handle_Write_def Let_def WriteHeader_def split: prod.splits option.splits)

lemma statuses_append: "statuses (es @ fs) = statuses es @ statuses fs"
  by (induction es rule: statuses.induct) simp_all

lemma body_append: "body (es @ fs) = body es @ body fs"
  by (induction es rule: body.induct) simp_all

lemma Write_sent:
  "wroteHeader (this s) \<Longrightarrow>
   this (snd (Write ck buf s)) = (this s)\<lparr>w := recv (RecvWrite buf) (w (this s))\<rparr>"
  by (simp add: Write_this)

lemma Writes_sent:
  "wroteHeader (this s) \<Longrightarrow>
   this (run ck v (map OpWrite bufs) s) =
     (this s)\<lparr>w := (w (this s))\<lparr>events := events (w (this s)) @ map RecvWrite bufs\<rparr>\<rparr>"
proof (induction bufs arbitrary: s)
  case Nil
  then show ?case by simp
next
  case (Cons b bs)
  have sent: "wroteHeader (this (step ck v (OpWrite b) s))"
    using Cons.prems by (simp add: step_def Write_sent)
  show ?case
    using Cons.prems Cons.IH [OF sent] by (simp add: step_def Write_sent recv_def)
qed

lemma WriteHeader_code: "\<not> wroteHeader (this s) \<Longrightarrow> code (this (WriteHeader ck c s)) = c"
  by (simp add: WriteHeader_pending)

lemma WriteHeader_duration:
  "\<not> wroteHeader (this s) \<Longrightarrow> duration (this (WriteHeader ck c s)) = clock s - start (this s)"
  by (simp add: WriteHeader_pending)

lemma WriteHeader_statuses:
  "\<not> wroteHeader (this s) \<Longrightarrow>
   statuses (events (w (this (WriteHeader ck c s)))) = statuses (events (w (this s))) @ [c]"
  by (simp add: WriteHeader_pending statuses_append)

lemma WriteHeader_sinks: "sinks (WriteHeader ck c s) = sinks s"
  by (simp add: WriteHeader_def Let_def)

lemma WriteHeader_teeWriter: "teeWriter (this (WriteHeader ck c s)) = teeWriter (this s)"
  by (simp add: WriteHeader_def Let_def)

lemma WriteHeader_body: "body (events (w (this (WriteHeader ck c s)))) = body (events (w (this s)))"
  by (simp add: WriteHeader_def Let_def handle_WriteHeader_def recv_def body_append)

lemma Write_events:
  "events (w (this (snd (Write ck buf s)))) =
     events (w (this (if wroteHeader (this s) then s else WriteHeader ck 200 s))) @ [RecvWrite buf]"
  by (simp add: Write_this recv_def)

lemma Write_teeWriter: "teeWriter (this (snd (Write ck buf s))) = teeWriter (this s)"
  by (simp add: Write_this WriteHeader_teeWriter)

lemma Write_body: "body (events (w (this (snd (Write ck buf s))))) = body (events (w (this s))) @ buf"
  by (simp add: Write_events body_append WriteHeader_body)

lemma Flush_this:
  "this (Flush v s) =
     (case v of Custom \<Rightarrow> this s
      | _ \<Rightarrow> if flusher (w (this s))
             then (this s)\<lparr>wroteHeader := True, w := recv RecvFlush (w (this s))\<rparr>
             else (this s)\<lparr>wroteHeader := True\<rparr>)"
  by (simp add: Flush_def flushWriter_Flush_def httpWriter_Flush_def http2Writer_Flush_def
      Let_def split: variant.splits)

lemma Hijack_this:
  "this (snd (httpWriter_Hijack s)) =
     (if hijacker (w (this s)) then (this s)\<lparr>w := recv RecvHijack (w (this s))\<rparr> else this s)"
  by (simp add: httpWriter_Hijack_def Let_def)

lemma Push_this:
  "this (snd (http2Writer_Push target opts s)) =
     (if pusher (w (this s)) then (this s)\<lparr>w := recv (RecvPush target opts) (w (this s))\<rparr>
      else this s)"
  by (simp add: http2Writer_Push_def Let_def)

lemma ReadFrom_this:
  "this (snd (httpWriter_ReadFrom ck r s)) =
     (if \<not> readerFrom (w (this s)) then this s
      else if wroteHeader (this s) then (this s)\<lparr>w := recv (RecvReadFrom r) (w (this s))\<rparr>
      else (this (WriteHeader ck 200 s))
             \<lparr>w := recv (RecvReadFrom r) (w (this (WriteHeader ck 200 s)))\<rparr>)"
  by (simp add: httpWriter_ReadFrom_def Let_def)

lemma newWriter_fields:
  "headerName (snd (newWriter h p name now)) = (if name = [] then ''X-Response-Time'' else name)
   \<and> start (snd (newWriter h p name now)) = now
   \<and> w (snd (newWriter h p name now)) = h
   \<and> teeWriter (snd (newWriter h p name now)) = None"
  by (simp add: newWriter_def Let_def defaultResponseTime_def)

lemma fresh_pending:
  "\<not> wroteHeader (this (fresh h p name now ks)) \<and> Duration (fresh h p name now ks) = 0
   \<and> Code (fresh h p name now ks) = 0"
  by (simp add: fresh_def newWriter_def Let_def Duration_def Code_def)

text \<open>Once the header is marked as written, no step changes what was recorded.\<close>

lemma step_sent:
  assumes "wroteHeader (this s)"
  shows "wroteHeader (this (step ck v x s))
       \<and> code (this (step ck v x s)) = code (this s)
       \<and> duration (this (step ck v x s)) = duration (this s)
       \<and> statuses (events (w (this (step ck v x s)))) = statuses (events (w (this s)))"
  using assms
  by (cases x)
     (simp_all add: step_def WriteHeader_sent Write_this TeeWriter_def Flush_this Hijack_this
        Push_this ReadFrom_this mutate_header_def recv_def statuses_append
        split: variant.splits)

lemma run_sent:
  "wroteHeader (this s) \<Longrightarrow>
   wroteHeader (this (run ck v xs s))
   \<and> code (this (run ck v xs s)) = code (this s)
   \<and> duration (this (run ck v xs s)) = duration (this s)
   \<and> statuses (events (w (this (run ck v xs s)))) = statuses (events (w (this s)))"
proof (induction xs arbitrary: s)
  case Nil
  then show ?case by simp
next
  case (Cons x xs)
  from step_sent [OF Cons.prems, of ck v x] Cons.IH [of "step ck v x s"]
  show ?case by simp
qed

text \<open>A step on a pending writer forwards at most one status, and only by writing the header.\<close>

lemma step_pending:
  assumes "\<not> wroteHeader (this s)"
  shows "statuses (events (w (this (step ck v x s)))) = statuses (events (w (this s)))
       \<or> (wroteHeader (this (step ck v x s))
          \<and> length (statuses (events (w (this (step ck v x s))))) =
              length (statuses (events (w (this s)))) + 1)"
  using assms
  by (cases x)
     (simp_all add: step_def WriteHeader_pending Write_this TeeWriter_def Flush_this Hijack_this
        Push_this ReadFrom_this mutate_header_def recv_def statuses_append
        split: variant.splits)

lemma run_statuses:
  "length (statuses (events (w (this (run ck v xs s))))) \<le>
     length (statuses (events (w (this s)))) + (if wroteHeader (this s) then 0 else 1)"
proof (induction xs arbitrary: s)
  case Nil
  then show ?case by simp
next
  case (Cons x xs)
  show ?case
  proof (cases "wroteHeader (this s)")
    case True
    then show ?thesis using run_sent [OF True, of ck v "x # xs"] by simp
  next
    case False
    from step_pending [OF False, of ck v x]
    show ?thesis
    proof
      assume same: "statuses (events (w (this (step ck v x s)))) = statuses (events (w (this s)))"
      from Cons.IH [of "step ck v x s"] same False show ?thesis
        by (simp split: if_splits)
    next
      assume sent: "wroteHeader (this (step ck v x s))
          \<and> length (statuses (events (w (this (step ck v x s))))) =
              length (statuses (events (w (this s)))) + 1"
      then have w: "wroteHeader (this (step ck v x s))" by simp
      from run_sent [OF w, of ck v xs] sent False show ?thesis by simp
    qed
  qed
qed

text \<open>While the header is still pending after a run, nothing has been recorded yet.\<close>

lemma step_still_pending:
  assumes "\<not> wroteHeader (this (step ck v x s))"
  shows "\<not> wroteHeader (this s) \<and> duration (this (step ck v x s)) = duration (this s)
       \<and> code (this (step ck v x s)) = code (this s)"
proof -
  have p: "\<not> wroteHeader (this s)"
    using assms step_sent [of s ck v x] by blast
  show ?thesis
    using assms p
    by (cases x)
       (simp_all add: step_def WriteHeader_wrote Write_this TeeWriter_def Flush_this Hijack_this
          Push_this ReadFrom_this mutate_header_def split: variant.splits if_splits)
qed

lemma run_still_pending:
  "\<not> wroteHeader (this (run ck v xs s)) \<Longrightarrow>
   duration (this (run ck v xs s)) = duration (this s) \<and> code (this (run ck v xs s)) = code (this s)"
proof (induction xs arbitrary: s)
  case Nil
  then show ?case by simp
next
  case (Cons x xs)
  have q: "\<not> wroteHeader (this (step ck v x s))"
    using Cons.prems run_sent [of "step ck v x s" ck v xs] by auto
  from Cons.IH [of "step ck v x s"] Cons.prems step_still_pending [OF q]
  show ?case by simp
qed

text \<open>The clock never runs backwards and the start time is never reassigned.\<close>

lemma step_clock:
  "start (this (step ck v x s)) = start (this s) \<and> clock s \<le> clock (step ck v x s)"
  by (cases x)
     (simp_all add: step_def WriteHeader_def Let_def Write_this Write_clock TeeWriter_def
        Flush_def flushWriter_Flush_def httpWriter_Flush_def http2Writer_Flush_def
        httpWriter_Hijack_def http2Writer_Push_def httpWriter_ReadFrom_def mutate_header_def
        split: variant.splits)

lemma run_clock:
  "start (this (run ck v xs s)) = start (this s) \<and> clock s \<le> clock (run ck v xs s)"
proof (induction xs arbitrary: s)
  case Nil
  then show ?case by simp
next
  case (Cons x xs)
  from Cons.IH [of "step ck v x s"] step_clock [of ck v x s]
  show ?case by simp
qed

section \<open>Variant selection\<close>

text \<open>
  The selection for any protocol major, as the code branches: major 2 takes the push
  probe, every other major the hijack and reader-from probe.
\<close>

lemma newWriter_any_major:
  "fst (newWriter h p name now) =
     (if p = 2 \<and> flusher h \<and> pusher h then Http2Writer
      else if p \<noteq> 2 \<and> flusher h \<and> hijacker h \<and> readerFrom h then HttpWriter
      else if flusher h then FlushWriter
      else Custom)"
  by (simp add: newWriter_def Let_def)

text \<open>
  C2. The protocol major is 1 or 2. \<open>newWriter\<close> returns \<open>http2Writer\<close> for major 2 and a
  handle with flush and push; else \<open>httpWriter\<close> for major 1 and a handle with flush,
  hijack and reader-from; else \<open>flushWriter\<close> for a handle with flush; else \<open>custom\<close>:
  the rule as the specification words it. The type returned has exactly the optional
  methods listed for it and no others.
\<close>

theorem C2_newWriter_selects:
  assumes "p = 1 \<or> p = 2"
  shows "fst (newWriter h p name now) = select_by_spec h p
   \<and> fst (newWriter h p name now) =
     (if p = 2 \<and> flusher h \<and> pusher h then Http2Writer
      else if p = 1 \<and> flusher h \<and> hijacker h \<and> readerFrom h then HttpWriter
      else if flusher h then FlushWriter
      else Custom)
   \<and> exposes (fst (newWriter h p name now)) =
     (if p = 2 \<and> flusher h \<and> pusher h then {CapFlush, CapPush}
      else if p = 1 \<and> flusher h \<and> hijacker h \<and> readerFrom h
        then {CapFlush, CapHijack, CapReadFrom}
      else if flusher h then {CapFlush}
      else {})"
  using assms by (auto simp add: newWriter_def select_by_spec_def Let_def)

theorem C2_newWriter_selects_witness:
  "fst (newWriter (recorder True False False True) 2 [] 0) = Http2Writer
   \<and> exposes (fst (newWriter (recorder True False False True) 2 [] 0)) = {CapFlush, CapPush}
   \<and> fst (newWriter (recorder True True True False) 1 [] 0) = HttpWriter
   \<and> CapPush \<notin> exposes (fst (newWriter (recorder True True True False) 1 [] 0))
   \<and> fst (newWriter (recorder True False False False) 1 [] 0) = FlushWriter
   \<and> exposes (fst (newWriter (recorder True False False False) 1 [] 0)) = {CapFlush}
   \<and> fst (newWriter (recorder False True True True) 2 [] 0) = Custom
   \<and> exposes (fst (newWriter (recorder False True True True) 2 [] 0)) = {}"
  using C2_newWriter_selects [of 2 "recorder True False False True" "[]" 0]
    C2_newWriter_selects [of 1 "recorder True True True False" "[]" 0]
    C2_newWriter_selects [of 1 "recorder True False False False" "[]" 0]
    C2_newWriter_selects [of 2 "recorder False True True True" "[]" 0]
  by (auto simp add: recorder_def)

section \<open>The first write\<close>

text \<open>
  C3. While no header has been written, \<open>Write\<close> is \<open>WriteHeader(200)\<close> followed by the
  forwarding of the bytes; after any sequence of \<open>Write\<close> calls that starts so, \<open>Code()\<close> is
  200 and the handle has received, after what it had received before, the status 200
  (with the latency header already in the header set) and then each buffer, in order.
\<close>

theorem C3_first_Write_sends_200:
  assumes "\<not> wroteHeader (this s)"
  shows "this (snd (Write ck buf s)) =
           (this (WriteHeader ck 200 s))\<lparr>w := recv (RecvWrite buf) (w (this (WriteHeader ck 200 s)))\<rparr>
       \<and> Code (run ck v (map OpWrite (buf # bufs)) s) = 200
       \<and> events (w (this (run ck v (map OpWrite (buf # bufs)) s))) =
           events (w (this s)) @
           RecvWriteHeader 200
             (Header_Add ck (headerName (this s))
                (Itoa (Milliseconds (clock s - start (this s))) @ ''ms'') (header (w (this s))))
           # map RecvWrite (buf # bufs)"
proof -
  let ?s1 = "step ck v (OpWrite buf) s"
  have first: "this ?s1 =
      (this (WriteHeader ck 200 s))\<lparr>w := recv (RecvWrite buf) (w (this (WriteHeader ck 200 s)))\<rparr>"
    using assms by (simp add: step_def Write_this)
  have sent: "wroteHeader (this ?s1)"
    by (simp add: first WriteHeader_wrote)
  have rest: "this (run ck v (map OpWrite bufs) ?s1) =
      (this ?s1)\<lparr>w := (w (this ?s1))\<lparr>events := events (w (this ?s1)) @ map RecvWrite bufs\<rparr>\<rparr>"
    by (rule Writes_sent [OF sent])
  have a: "this (snd (Write ck buf s)) =
      (this (WriteHeader ck 200 s))\<lparr>w := recv (RecvWrite buf) (w (this (WriteHeader ck 200 s)))\<rparr>"
    using first by (simp add: step_def)
  have b: "Code (run ck v (map OpWrite (buf # bufs)) s) = 200"
    using assms by (simp add: Code_def rest first WriteHeader_pending)
  have c: "events (w (this (run ck v (map OpWrite (buf # bufs)) s))) =
           events (w (this s)) @
           RecvWriteHeader 200
             (Header_Add ck (headerName (this s))
                (Itoa (Milliseconds (clock s - start (this s))) @ ''ms'') (header (w (this s))))
           # map RecvWrite (buf # bufs)"
    using assms by (simp add: rest first WriteHeader_pending recv_def)
  show ?thesis using a b c by blast
qed


theorem C3_first_Write_sends_200_witness:
  "\<not> wroteHeader (this (fresh (recorder False False False False) 1 [] 0 buffers))
   \<and> Code (run id Custom (map OpWrite [''hello''])
        (fresh (recorder False False False False) 1 [] 0 buffers)) = 200
   \<and> events (w (this (run id Custom (map OpWrite [''hello''])
        (fresh (recorder False False False False) 1 [] 0 buffers)))) =
       [RecvWriteHeader 200 [''X-Response-Time'' \<mapsto> [''0ms'']], RecvWrite ''hello'']"
  using C3_first_Write_sends_200
    [of "fresh (recorder False False False False) 1 [] 0 buffers" id "''hello''" Custom "[]"]
  by (simp add: fresh_def newWriter_def recorder_def defaultResponseTime_def Header_Add_def
      Milliseconds_def Itoa_def decimal.simps)

section \<open>The header is written once\<close>

text \<open>
  Once the header is marked as written, \<open>WriteHeader\<close> with any code leaves the whole
  world as it is (the recorded code and duration, the header set, the calls the handle
  has received), and no step of a handler unmarks it. After the \<open>WriteHeader(c)\<close> that
  finds the header pending, whatever the handler does next, \<open>Code()\<close> is \<open>c\<close>,
  \<open>Duration()\<close> is what that call recorded and the handle has received the one status
  \<open>c\<close>. Over any run from construction the handle's \<open>WriteHeader\<close> is called at most once.
\<close>

lemma header_write_is_terminal:
  "(wroteHeader (this s) \<longrightarrow>
      WriteHeader ck d s = s \<and> wroteHeader (this (step ck v x s)))
   \<and> (\<not> wroteHeader (this s) \<longrightarrow>
      Code (run ck v xs (WriteHeader ck c s)) = c
      \<and> Duration (run ck v xs (WriteHeader ck c s)) = Duration (WriteHeader ck c s)
      \<and> statuses (events (w (this (run ck v xs (WriteHeader ck c s))))) =
          statuses (events (w (this s))) @ [c])
   \<and> length (statuses (events (w (this (run ck v xs (fresh h p name now ks)))))) \<le>
       length (statuses (events h)) + 1"
proof -
  have a: "wroteHeader (this s) \<longrightarrow>
      WriteHeader ck d s = s \<and> wroteHeader (this (step ck v x s))"
    using step_sent [of s ck v x] by (simp add: WriteHeader_sent)
  have b: "\<not> wroteHeader (this s) \<longrightarrow>
      Code (run ck v xs (WriteHeader ck c s)) = c
      \<and> Duration (run ck v xs (WriteHeader ck c s)) = Duration (WriteHeader ck c s)
      \<and> statuses (events (w (this (run ck v xs (WriteHeader ck c s))))) =
          statuses (events (w (this s))) @ [c]"
  proof
    assume pending: "\<not> wroteHeader (this s)"
    note r = run_sent [OF WriteHeader_wrote, of ck v xs ck c s]
    have "Code (run ck v xs (WriteHeader ck c s)) = c"
      using r WriteHeader_code [OF pending, of ck c] by (simp add: Code_def)
    moreover have "Duration (run ck v xs (WriteHeader ck c s)) = Duration (WriteHeader ck c s)"
      using r by (simp add: Duration_def)
    moreover have "statuses (events (w (this (run ck v xs (WriteHeader ck c s))))) =
          statuses (events (w (this s))) @ [c]"
      using r WriteHeader_statuses [OF pending, of ck c] by simp
    ultimately show "Code (run ck v xs (WriteHeader ck c s)) = c
      \<and> Duration (run ck v xs (WriteHeader ck c s)) = Duration (WriteHeader ck c s)
      \<and> statuses (events (w (this (run ck v xs (WriteHeader ck c s))))) =
          statuses (events (w (this s))) @ [c]"
      by blast
  qed
  have c: "length (statuses (events (w (this (run ck v xs (fresh h p name now ks)))))) \<le>
       length (statuses (events h)) + 1"
    using run_statuses [of ck v xs "fresh h p name now ks"]
    by (simp add: fresh_def newWriter_def Let_def split: if_splits)
  show ?thesis using a b c by blast
qed

text \<open>
  C4. On a \<open>flushWriter\<close>: \<open>Flush\<close>, then \<open>WriteHeader(404)\<close>, then \<open>WriteHeader(500)\<close>.
  The flush is the first header write of the response, yet no code wins: \<open>Code()\<close> is 0,
  neither the 200 of an implicit header write nor the 404 of the first explicit one, and
  the handle has received no status from the writer. Without the \<open>Flush\<close> the first call
  wins: \<open>Code()\<close> is 404 and the handle has received the one status 404.
\<close>

theorem C4_Flush_first_no_code_wins:
  "fst (newWriter (recorder True False False False) 1 [] 0) = FlushWriter
   \<and> Code (run id FlushWriter [OpFlush, OpWriteHeader 404, OpWriteHeader 500]
        (fresh (recorder True False False False) 1 [] 0 buffers)) = 0
   \<and> statuses (events (w (this (run id FlushWriter [OpFlush, OpWriteHeader 404, OpWriteHeader 500]
        (fresh (recorder True False False False) 1 [] 0 buffers))))) = []
   \<and> Code (run id FlushWriter [OpWriteHeader 404, OpWriteHeader 500]
        (fresh (recorder True False False False) 1 [] 0 buffers)) = 404
   \<and> statuses (events (w (this (run id FlushWriter [OpWriteHeader 404, OpWriteHeader 500]
        (fresh (recorder True False False False) 1 [] 0 buffers))))) = [404]"
  by (simp add: Code_def step_def Flush_def flushWriter_Flush_def WriteHeader_def Let_def
      handle_WriteHeader_def fresh_def newWriter_def recorder_def recv_def)

section \<open>Write and the tee sink\<close>

text \<open>
  C6. \<open>Write(buf)\<close> forwards \<open>buf\<close> to the handle (after the implicit header write, if
  one is due). When the handle answers \<open>n\<close> and an error, the call returns both and no
  sink is touched. When it answers \<open>n\<close> and no error and no tee sink is set, the call
  returns \<open>n\<close>. When a tee sink is set and \<open>n\<close> is within the buffer, that sink receives
  exactly the first \<open>n\<close> bytes of \<open>buf\<close>, no other sink is touched, and the call returns
  \<open>n\<close> with the sink's error.
\<close>

theorem C6_Write_forwards_then_tees:
  assumes "sh = (if wroteHeader (this s) then s else WriteHeader ck 200 s)"
    and "onWrite (w (this sh)) (events (w (this sh))) buf = (n, err)"
  shows "events (w (this (snd (Write ck buf s)))) = events (w (this sh)) @ [RecvWrite buf]
   \<and> (err \<noteq> None \<longrightarrow>
        fst (Write ck buf s) = Return (n, err) \<and> sinks (snd (Write ck buf s)) = sinks s)
   \<and> (err = None \<and> teeWriter (this s) = None \<longrightarrow>
        fst (Write ck buf s) = Return (n, None) \<and> sinks (snd (Write ck buf s)) = sinks s)
   \<and> (err = None \<and> teeWriter (this s) = Some a \<and> 0 \<le> n \<and> n \<le> int (length buf) \<longrightarrow>
        received (sinks (snd (Write ck buf s)) a) = received (sinks s a) @ [take (nat n) buf]
        \<and> (\<forall>a'. a' \<noteq> a \<longrightarrow> sinks (snd (Write ck buf s)) a' = sinks s a')
        \<and> fst (Write ck buf s) =
            Return (n, snd (onSinkWrite (sinks s a) (received (sinks s a)) (take (nat n) buf))))"
proof -
  have e: "events (w (this (snd (Write ck buf s)))) = events (w (this sh)) @ [RecvWrite buf]"
    using assms(1) by (simp add: Write_events)
  have f: "err \<noteq> None \<longrightarrow>
        fst (Write ck buf s) = Return (n, err) \<and> sinks (snd (Write ck buf s)) = sinks s"
    using assms
    by (auto simp add: Write_def handle_Write_def Let_def WriteHeader_sinks
        split: prod.splits option.splits if_splits)
  have g: "err = None \<and> teeWriter (this s) = None \<longrightarrow>
        fst (Write ck buf s) = Return (n, None) \<and> sinks (snd (Write ck buf s)) = sinks s"
    using assms
    by (auto simp add: Write_def handle_Write_def Let_def WriteHeader_sinks WriteHeader_teeWriter
        split: prod.splits option.splits if_splits)
  have h: "err = None \<and> teeWriter (this s) = Some a \<and> 0 \<le> n \<and> n \<le> int (length buf) \<longrightarrow>
        received (sinks (snd (Write ck buf s)) a) = received (sinks s a) @ [take (nat n) buf]
        \<and> (\<forall>a'. a' \<noteq> a \<longrightarrow> sinks (snd (Write ck buf s)) a' = sinks s a')
        \<and> fst (Write ck buf s) =
            Return (n, snd (onSinkWrite (sinks s a) (received (sinks s a)) (take (nat n) buf)))"
    using assms
    by (auto simp add: Write_def handle_Write_def Let_def WriteHeader_sinks WriteHeader_teeWriter
        split: prod.splits option.splits if_splits)
  show ?thesis using e f g h by blast
qed

theorem C6_Write_forwards_then_tees_witness:
  "fst (Write id ''ab'' (TeeWriter (Some 0) (fresh (recorder False False False False) 1 [] 0 buffers)))
     = Return (2, Some (Error ''closed''))
   \<and> received (sinks (snd (Write id ''ab''
        (TeeWriter (Some 0) (fresh (recorder False False False False) 1 [] 0 buffers)))) 0) = [''ab'']
   \<and> body (events (w (this (snd (Write id ''ab''
        (TeeWriter (Some 0) (fresh (recorder False False False False) 1 [] 0 buffers))))))) = ''ab''
   \<and> fst (Write id ''ab'' (TeeWriter (Some 1)
        (fresh ((recorder False False False False)\<lparr>onWrite := \<lambda>es buf. (1, Some (Error ''reset''))\<rparr>)
           1 [] 0 buffers)))
     = Return (1, Some (Error ''reset''))
   \<and> received (sinks (snd (Write id ''ab'' (TeeWriter (Some 1)
        (fresh ((recorder False False False False)\<lparr>onWrite := \<lambda>es buf. (1, Some (Error ''reset''))\<rparr>)
           1 [] 0 buffers)))) 1) = []"
  using C6_Write_forwards_then_tees
    [where s = "TeeWriter (Some 0) (fresh (recorder False False False False) 1 [] 0 buffers)"
      and ck = id and buf = "''ab''" and n = 2 and err = None and a = 0
      and sh = "WriteHeader id 200
        (TeeWriter (Some 0) (fresh (recorder False False False False) 1 [] 0 buffers))"]
   C6_Write_forwards_then_tees
    [where s = "TeeWriter (Some 1)
        (fresh ((recorder False False False False)\<lparr>onWrite := \<lambda>es buf. (1, Some (Error ''reset''))\<rparr>)
           1 [] 0 buffers)"
      and ck = id and buf = "''ab''" and n = 1 and err = "Some (Error ''reset'')" and a = 1
      and sh = "WriteHeader id 200 (TeeWriter (Some 1)
        (fresh ((recorder False False False False)\<lparr>onWrite := \<lambda>es buf. (1, Some (Error ''reset''))\<rparr>)
           1 [] 0 buffers))"]
  by (simp add: fresh_def newWriter_def recorder_def TeeWriter_def WriteHeader_def Let_def
      handle_WriteHeader_def recv_def buffers_def closed_sink_def buffer_sink_def)

text \<open>A successful \<open>Write\<close> with a tee sink set hands the whole buffer to that sink only.\<close>

lemma Write_succeeds_tee:
  assumes "teeWriter (this s) = Some a"
    and "fst (Write ck buf s) = Return (int (length buf), None)"
  shows "received (sinks (snd (Write ck buf s)) a) = received (sinks s a) @ [buf]
       \<and> (\<forall>a'. a' \<noteq> a \<longrightarrow> sinks (snd (Write ck buf s)) a' = sinks s a')"
  using assms
  by (auto simp add: Write_def handle_Write_def Let_def WriteHeader_sinks WriteHeader_teeWriter
      split: prod.splits option.splits if_splits)

lemma tee_Writes:
  "teeWriter (this s) = Some a \<Longrightarrow> all_succeed ck bufs s \<Longrightarrow>
   received (sinks (run ck v (map OpWrite bufs) s) a) = received (sinks s a) @ bufs
   \<and> (\<forall>a'. a' \<noteq> a \<longrightarrow> sinks (run ck v (map OpWrite bufs) s) a' = sinks s a')
   \<and> body (events (w (this (run ck v (map OpWrite bufs) s)))) =
       body (events (w (this s))) @ concat bufs"
proof (induction bufs arbitrary: s)
  case Nil
  then show ?case by simp
next
  case (Cons b bs)
  let ?s = "snd (Write ck b s)"
  have ok: "fst (Write ck b s) = Return (int (length b), None)" and rest: "all_succeed ck bs ?s"
    using Cons.prems(2) by simp_all
  have tee: "teeWriter (this ?s) = Some a"
    using Cons.prems(1) by (simp add: Write_teeWriter)
  note one = Write_succeeds_tee [OF Cons.prems(1) ok]
  note ih = Cons.IH [OF tee rest]
  show ?case using one ih by (simp add: step_def Write_body)
qed

text \<open>
  C7. After \<open>TeeWriter(sink)\<close>, in any state of the writer, a sequence of \<open>Write\<close> calls
  that all succeed appends to the sink's output the concatenation of their buffers, in
  order, and to the bytes passed to the handle the same; every other sink, a replaced
  one among them, keeps its output; installing the sink writes nothing by itself.
\<close>

theorem C7_tee_sees_later_writes:
  assumes "all_succeed ck bufs (TeeWriter (Some a) s)"
  shows "sink_output (sinks (run ck v (map OpWrite bufs) (TeeWriter (Some a) s)) a) =
           sink_output (sinks s a) @ concat bufs
       \<and> body (events (w (this (run ck v (map OpWrite bufs) (TeeWriter (Some a) s))))) =
           body (events (w (this s))) @ concat bufs
       \<and> (\<forall>a'. a' \<noteq> a \<longrightarrow>
            sinks (run ck v (map OpWrite bufs) (TeeWriter (Some a) s)) a' = sinks s a')
       \<and> sinks (TeeWriter (Some a) s) = sinks s
       \<and> events (w (this (TeeWriter (Some a) s))) = events (w (this s))"
proof -
  have tee: "teeWriter (this (TeeWriter (Some a) s)) = Some a"
    by (simp add: TeeWriter_def)
  from tee_Writes [OF tee assms, of v]
  show ?thesis by (simp add: sink_output_def TeeWriter_def)
qed

theorem C7_tee_sees_later_writes_witness:
  "all_succeed id [''ab'', ''cd'']
     (TeeWriter (Some 1) (run id Custom [OpWrite ''zz'']
        (fresh (recorder False False False False) 1 [] 0 buffers)))
   \<and> sink_output (sinks (run id Custom (map OpWrite [''ab'', ''cd''])
        (TeeWriter (Some 1) (run id Custom [OpWrite ''zz'']
           (fresh (recorder False False False False) 1 [] 0 buffers)))) 1) = ''abcd''
   \<and> body (events (w (this (run id Custom (map OpWrite [''ab'', ''cd''])
        (TeeWriter (Some 1) (run id Custom [OpWrite ''zz'']
           (fresh (recorder False False False False) 1 [] 0 buffers))))))) = ''zzabcd''"
proof -
  have ok: "all_succeed id [''ab'', ''cd'']
     (TeeWriter (Some 1) (run id Custom [OpWrite ''zz'']
        (fresh (recorder False False False False) 1 [] 0 buffers)))"
    by code_simp
  have before_sink: "sink_output (sinks (run id Custom [OpWrite ''zz'']
        (fresh (recorder False False False False) 1 [] 0 buffers)) 1) = []"
    by code_simp
  have before_body: "body (events (w (this (run id Custom [OpWrite ''zz'']
        (fresh (recorder False False False False) 1 [] 0 buffers))))) = ''zz''"
    by code_simp
  from C7_tee_sees_later_writes [OF ok, of Custom] ok
  show ?thesis
    by (simp only: before_sink before_body) simp
qed

section \<open>Flush before the header\<close>

text \<open>
  \<open>Flush\<close>, on each of the three types, sets \<open>wroteHeader\<close> and forwards: it records no
  status and no duration, adds no header and does not call the handle's \<open>WriteHeader\<close>.
  \<open>ReadFrom\<close> on a pending writer calls \<open>WriteHeader(200)\<close> before it forwards, as \<open>Write\<close>
  does; \<open>Hijack\<close> and \<open>Push\<close> forward and leave the header state alone.
\<close>

lemma Flush_records_nothing:
  "Code (Flush v s) = Code s \<and> Duration (Flush v s) = Duration s \<and> Header (Flush v s) = Header s
   \<and> statuses (events (w (this (Flush v s)))) = statuses (events (w (this s)))"
  by (simp add: Code_def Duration_def Header_def Flush_this recv_def statuses_append
      split: variant.splits)

lemma ReadFrom_forces_header:
  assumes "\<not> wroteHeader (this s)" and "readerFrom (w (this s))"
  shows "Code (snd (httpWriter_ReadFrom ck r s)) = 200
   \<and> events (w (this (snd (httpWriter_ReadFrom ck r s)))) =
       events (w (this s)) @
       [RecvWriteHeader 200
          (Header_Add ck (headerName (this s))
             (Itoa (Milliseconds (clock s - start (this s))) @ ''ms'') (header (w (this s)))),
        RecvReadFrom r]
   \<and> fst (httpWriter_ReadFrom ck r s) =
       Return (onReadFrom (w (this s)) (events (w (this (WriteHeader ck 200 s)))) r)"
  using assms
  by (simp add: Code_def ReadFrom_this httpWriter_ReadFrom_def Let_def WriteHeader_pending recv_def)

lemma Hijack_Push_keep_header_state:
  "wroteHeader (this (snd (httpWriter_Hijack s))) = wroteHeader (this s)
   \<and> Code (snd (httpWriter_Hijack s)) = Code s
   \<and> Header (snd (httpWriter_Hijack s)) = Header s
   \<and> statuses (events (w (this (snd (httpWriter_Hijack s))))) = statuses (events (w (this s)))
   \<and> wroteHeader (this (snd (http2Writer_Push target opts s))) = wroteHeader (this s)
   \<and> Code (snd (http2Writer_Push target opts s)) = Code s
   \<and> Header (snd (http2Writer_Push target opts s)) = Header s
   \<and> statuses (events (w (this (snd (http2Writer_Push target opts s))))) =
       statuses (events (w (this s)))"
  by (simp add: Code_def Header_def Hijack_this Push_this recv_def statuses_append)

text \<open>
  C1. A writer over a handle that only flushes, protocol major 1, is a \<open>flushWriter\<close>.
  \<open>Flush\<close> on it right after construction leaves \<open>Code()\<close> at 0, not 200, and no
  \<open>X-Response-Time\<close> header; the handle has received the flush and no status, and the
  header counts as written. The same holds for \<open>Flush\<close> on an \<open>httpWriter\<close> and on an
  \<open>http2Writer\<close>.
\<close>

theorem C1_Flush_first_records_no_status:
  "fst (newWriter (recorder True False False False) 1 [] 0) = FlushWriter
   \<and> Code (Flush FlushWriter (fresh (recorder True False False False) 1 [] 0 buffers)) = 0
   \<and> Header (Flush FlushWriter (fresh (recorder True False False False) 1 [] 0 buffers))
        ''X-Response-Time'' = None
   \<and> events (w (this (Flush FlushWriter (fresh (recorder True False False False) 1 [] 0 buffers))))
        = [RecvFlush]
   \<and> wroteHeader (this (Flush FlushWriter (fresh (recorder True False False False) 1 [] 0 buffers)))
   \<and> fst (newWriter (recorder True True True False) 1 [] 0) = HttpWriter
   \<and> Code (Flush HttpWriter (fresh (recorder True True True False) 1 [] 0 buffers)) = 0
   \<and> fst (newWriter (recorder True False False True) 2 [] 0) = Http2Writer
   \<and> Code (Flush Http2Writer (fresh (recorder True False False True) 2 [] 0 buffers)) = 0"
  by (simp add: Code_def Header_def Flush_this fresh_def newWriter_def recorder_def recv_def)

text \<open>
  What the first \<open>WriteHeader\<close> on a pending writer does to the header set: one value,
  the elapsed whole milliseconds followed by \<open>ms\<close>, is appended under the configured
  name (\<open>X-Response-Time\<close> when none was given), every other key is left alone, and the
  handle receives the status with that header set. Afterwards no method of the writer
  changes the header set.
\<close>

lemma Milliseconds_truncates:
  "0 \<le> d \<Longrightarrow> Milliseconds d * 1000000 \<le> d \<and> d < (Milliseconds d + 1) * 1000000"
  by (simp add: Milliseconds_def) presburger

lemma first_WriteHeader_adds_latency_header:
  assumes "\<not> wroteHeader (this s)"
  shows "Header (WriteHeader ck c s) (ck (headerName (this s))) =
           Some ((case Header s (ck (headerName (this s))) of None \<Rightarrow> [] | Some vs \<Rightarrow> vs) @
                 [Itoa (Milliseconds (clock s - start (this s))) @ ''ms''])
       \<and> (\<forall>k. k \<noteq> ck (headerName (this s)) \<longrightarrow> Header (WriteHeader ck c s) k = Header s k)
       \<and> events (w (this (WriteHeader ck c s))) =
           events (w (this s)) @ [RecvWriteHeader c (Header (WriteHeader ck c s))]"
  using assms by (simp add: WriteHeader_pending Header_def Header_Add_def)

lemma sent_methods_keep_header:
  assumes "wroteHeader (this s)"
    and "\<forall>key val. x \<noteq> OpHeaderAdd key val \<and> x \<noteq> OpHeaderSet key val"
  shows "Header (step ck v x s) = Header s"
  using assms
  by (cases x)
     (simp_all add: Header_def step_def WriteHeader_sent Write_this TeeWriter_def Flush_this
        Hijack_this Push_this ReadFrom_this recv_def split: variant.splits)

text \<open>
  C5. On an \<open>httpWriter\<close>, 5 ms after construction: \<open>Flush\<close>, then \<open>WriteHeader(200)\<close>, then
  \<open>Write\<close>. The header set never gets an \<open>X-Response-Time\<close> value, and the handle
  receives the flush and the bytes but no status from the writer. Without the \<open>Flush\<close>
  the same run adds the value \<open>5ms\<close>.
\<close>

theorem C5_Flush_first_loses_latency_header:
  "Header (run id HttpWriter [OpSleep 5000000, OpFlush, OpWriteHeader 200, OpWrite ''hi'']
       (fresh (recorder True True True False) 1 [] 0 buffers)) ''X-Response-Time'' = None
   \<and> events (w (this (run id HttpWriter [OpSleep 5000000, OpFlush, OpWriteHeader 200, OpWrite ''hi'']
       (fresh (recorder True True True False) 1 [] 0 buffers)))) = [RecvFlush, RecvWrite ''hi'']
   \<and> Header (run id HttpWriter [OpSleep 5000000, OpWriteHeader 200, OpWrite ''hi'']
       (fresh (recorder True True True False) 1 [] 0 buffers)) ''X-Response-Time'' = Some [''5ms'']"
  by (simp add: Header_def step_def Flush_this Write_this WriteHeader_def Let_def
      handle_WriteHeader_def time_Since_def Milliseconds_def Itoa_def decimal.simps Header_Add_def
      fresh_def newWriter_def recorder_def recv_def defaultResponseTime_def)

text \<open>
  From construction, as long as the header is pending \<open>Duration()\<close> is 0, and the
  \<open>WriteHeader\<close> that finds it pending records the time elapsed since construction,
  which is not negative.
\<close>

lemma pending_run_then_WriteHeader:
  assumes "s = run ck v xs (fresh h p name now ks)" and "\<not> wroteHeader (this s)"
  shows "Duration s = 0
       \<and> Duration (WriteHeader ck c s) = clock s - now
       \<and> 0 \<le> Duration (WriteHeader ck c s)"
  using assms run_still_pending [of ck v xs "fresh h p name now ks"]
    run_clock [of ck v xs "fresh h p name now ks"]
  by (simp add: Duration_def WriteHeader_duration fresh_def newWriter_fields)
    (simp add: newWriter_def Let_def)

text \<open>
  C8. On a \<open>flushWriter\<close>, 5 ms after construction: \<open>Flush\<close>, then \<open>WriteHeader(200)\<close>.
  \<open>Duration()\<close> is still 0 although 5 ms have elapsed since construction. Without the
  \<open>Flush\<close> the same run records 5 ms.
\<close>

theorem C8_Flush_first_leaves_Duration_zero:
  "Duration (run id FlushWriter [OpSleep 5000000, OpFlush, OpWriteHeader 200]
       (fresh (recorder True False False False) 1 [] 0 buffers)) = 0
   \<and> clock (run id FlushWriter [OpSleep 5000000, OpFlush, OpWriteHeader 200]
       (fresh (recorder True False False False) 1 [] 0 buffers))
     - start (this (run id FlushWriter [OpSleep 5000000, OpFlush, OpWriteHeader 200]
       (fresh (recorder True False False False) 1 [] 0 buffers))) = 5000000
   \<and> Duration (run id FlushWriter [OpSleep 5000000, OpWriteHeader 200]
       (fresh (recorder True False False False) 1 [] 0 buffers)) = 5000000"
  by (simp add: Duration_def step_def Flush_def flushWriter_Flush_def WriteHeader_def Let_def
      handle_WriteHeader_def time_Since_def fresh_def newWriter_def recorder_def recv_def)

section \<open>responses.Write\<close>

text \<open>
  C9. On a handle, \<open>responses.Write\<close> leaves the header set with \<open>Content-Type\<close> and
  \<open>X-Content-Type-Options\<close> set, the handle has then received \<open>WriteHeader(code)\<close> with
  that header set and after it \<open>Write(data)\<close>, and the call panics with the error of that
  write when there is one and returns otherwise.
\<close>

theorem C9_responses_Write:
  "(let H = Header_Set ck ''X-Content-Type-Options'' ''nosniff''
             (Header_Set ck ''Content-Type'' ''application/json; charset=utf-8'' (header h))
    in snd (responses_Write ck handle_ResponseWriter c data h) =
         h\<lparr>header := H, events := events h @ [RecvWriteHeader c H, RecvWrite data]\<rparr>
     \<and> fst (responses_Write ck handle_ResponseWriter c data h) =
         (case snd (onWrite h (events h @ [RecvWriteHeader c H]) data) of
            None \<Rightarrow> Return ()
          | Some e \<Rightarrow> Panic (PanicError e))
     \<and> H (ck ''X-Content-Type-Options'') = Some [''nosniff'']
     \<and> (ck ''Content-Type'' \<noteq> ck ''X-Content-Type-Options'' \<longrightarrow>
          H (ck ''Content-Type'') = Some [''application/json; charset=utf-8'']))"
  by (simp add: responses_Write_def handle_ResponseWriter_def handle_WriteHeader_def
      handle_Write_def recv_def Header_Set_def Let_def split: prod.splits option.splits)

theorem C9_responses_Write_witness:
  "events (snd (responses_Write id handle_ResponseWriter 201 ''{}''
       (recorder False False False False))) =
     [RecvWriteHeader 201
        [''Content-Type'' \<mapsto> [''application/json; charset=utf-8''],
         ''X-Content-Type-Options'' \<mapsto> [''nosniff'']],
      RecvWrite ''{}'']
   \<and> fst (responses_Write id handle_ResponseWriter 201 ''{}''
       (recorder False False False False)) = Return ()
   \<and> fst (responses_Write id handle_ResponseWriter 201 ''{}''
       ((recorder False False False False)\<lparr>onWrite := \<lambda>es buf. (0, Some (Error ''gone''))\<rparr>)) =
       Panic (PanicError (Error ''gone''))"
  using C9_responses_Write [where ck = id and c = 201 and data = "''{}''"
      and h = "recorder False False False False"]
    C9_responses_Write [where ck = id and c = 201 and data = "''{}''"
      and h = "(recorder False False False False)\<lparr>onWrite := \<lambda>es buf. (0, Some (Error ''gone''))\<rparr>"]
  by (simp add: recorder_def Header_Set_def Let_def)

section \<open>The logged body\<close>




end
